theory Spec2Isabelle
  imports Main "HOL-Library.Word"
begin

section \<open>The object runtime of lib/base/object.hpp\<close>

text \<open>
  The header is compiled in two configurations, selected by the preprocessor
  symbol \<open>_DEBUG\<close>. Every function whose body depends on that symbol takes the
  configuration as its first argument.
\<close>

datatype build = Debug | Release

subsection \<open>Classes and run-time type information\<close>

text \<open>
  Every entity class derives, directly or through a chain of bases, from
  \<open>Object\<close>. A class is given by its name, by whether its body contains
  \<open>DECLARE_OBJECT\<close>, and by its base class. \<open>Object\<close> itself contains
  \<open>DECLARE_OBJECT(Object)\<close>.
\<close>

datatype klass = ObjectClass | Derived string bool klass

text \<open>
  \<open>is_base_of T D\<close>: \<open>T\<close> is \<open>D\<close> itself or one of the ancestors of \<open>D\<close>. This is
  the test that \<open>dynamic_cast<T*>\<close> performs on a pointer to an object whose
  most derived class is \<open>D\<close>.
\<close>

primrec is_base_of :: "klass \<Rightarrow> klass \<Rightarrow> bool" where
  "is_base_of T ObjectClass = (T = ObjectClass)"
| "is_base_of T (Derived n d B) = (T = Derived n d B \<or> is_base_of T B)"

subsection \<open>The store: instances with their reference counts\<close>

text \<open>
  Entities are created by \<open>make_shared\<close> only, which allocates the instance and
  its control block together. An address is the index of that allocation in the
  store; a destroyed instance stays in the store with \<open>use_count = 0\<close>, which
  is what a weak handle observes. The instance's members are the payload \<open>members\<close>.
\<close>

type_synonym addr = nat

record 'f heap_object =
  dyn_class :: klass
  use_count :: nat
  weak_count :: nat
  members :: 'f

type_synonym 'f store = "'f heap_object list"

text \<open>
  A handle is a raw pointer (\<open>None\<close> is the null pointer) together with the
  static type it was declared with.
\<close>

record shared_ptr =
  sp_static :: klass
  sp_px :: "addr option"

record weak_ptr =
  wp_static :: klass
  wp_px :: "addr option"

definition null_shared :: "klass \<Rightarrow> shared_ptr" where
  "null_shared T = \<lparr>sp_static = T, sp_px = None\<rparr>"

definition add_ref :: "'f store \<Rightarrow> addr \<Rightarrow> 'f store" where
  "add_ref s a =
     (if a < length s then s[a := (s ! a)\<lparr>use_count := Suc (use_count (s ! a))\<rparr>] else s)"

definition drop_ref :: "'f store \<Rightarrow> addr \<Rightarrow> 'f store" where
  "drop_ref s a =
     (if a < length s \<and> use_count (s ! a) \<noteq> 0
      then s[a := (s ! a)\<lparr>use_count := use_count (s ! a) - 1\<rparr>] else s)"

definition add_weak :: "'f store \<Rightarrow> addr \<Rightarrow> 'f store" where
  "add_weak s a =
     (if a < length s then s[a := (s ! a)\<lparr>weak_count := Suc (weak_count (s ! a))\<rparr>] else s)"

text \<open>The destructor of a shared handle.\<close>

definition sp_release :: "'f store \<Rightarrow> shared_ptr \<Rightarrow> 'f store" where
  "sp_release s p = (case sp_px p of None \<Rightarrow> s | Some a \<Rightarrow> drop_ref s a)"

text \<open>
  \<open>dynamic_pointer_cast<T>(r)\<close>: a handle sharing ownership with \<open>r\<close> when the
  pointee's most derived class has \<open>T\<close> as itself or as a base, and an empty
  handle otherwise (also for a null \<open>r\<close>).
\<close>

definition dynamic_pointer_cast :: "klass \<Rightarrow> 'f store \<Rightarrow> shared_ptr \<Rightarrow> 'f store \<times> shared_ptr" where
  "dynamic_pointer_cast T s r =
     (case sp_px r of
        None \<Rightarrow> (s, null_shared T)
      | Some a \<Rightarrow>
          if a < length s \<and> is_base_of T (dyn_class (s ! a))
          then (add_ref s a, \<lparr>sp_static = T, sp_px = Some a\<rparr>)
          else (s, null_shared T))"

text \<open>
  \<open>static_pointer_cast<T>(r)\<close>: a handle sharing ownership with \<open>r\<close>, declared
  with type \<open>T\<close>; the pointee is not inspected.
\<close>

definition static_pointer_cast :: "klass \<Rightarrow> 'f store \<Rightarrow> shared_ptr \<Rightarrow> 'f store \<times> shared_ptr" where
  "static_pointer_cast T s r =
     ((case sp_px r of None \<Rightarrow> s | Some a \<Rightarrow> add_ref s a), \<lparr>sp_static = T, sp_px = sp_px r\<rparr>)"

datatype failure = AssertionFailed

text \<open>
  Modelled from the spec: the macro \<open>ASSERT\<close> of base/debug.hpp, which is not
  part of the header. The spec says that a failed check is fatal: the process
  aborts, and nothing can catch it.
\<close>

definition ASSERT :: "bool \<Rightarrow> failure + unit" where
  "ASSERT c = (if c then Inr () else Inl AssertionFailed)"

subsection \<open>Object::SharedPtrHolder\<close>

record SharedPtrHolder =
  m_Object :: shared_ptr

text \<open>
  \<open>operator shared_ptr<T>\<close>. The result \<open>Inl AssertionFailed\<close> is the abort of
  the process.
\<close>

definition operator_shared_ptr ::
  "build \<Rightarrow> klass \<Rightarrow> 'f store \<Rightarrow> SharedPtrHolder \<Rightarrow> failure + ('f store \<times> shared_ptr)" where
  "operator_shared_ptr b T s h =
     (case b of
        Debug \<Rightarrow>
          (case dynamic_pointer_cast T s (m_Object h) of
             (s', other) \<Rightarrow>
               (case ASSERT (sp_px other \<noteq> None) of
                  Inl e \<Rightarrow> Inl e
                | Inr _ \<Rightarrow> Inr (s', other)))
      | Release \<Rightarrow>
          (case static_pointer_cast T s (m_Object h) of
             (s', other) \<Rightarrow> Inr (s', other)))"

text \<open>
  The converting constructor \<open>weak_ptr<T>(shared_ptr<T> const &)\<close>: one more weak
  reference to the pointee, none for an empty handle.
\<close>

definition weak_from_shared :: "'f store \<Rightarrow> shared_ptr \<Rightarrow> 'f store \<times> weak_ptr" where
  "weak_from_shared s p =
     ((case sp_px p of None \<Rightarrow> s | Some a \<Rightarrow> add_weak s a),
      \<lparr>wp_static = sp_static p, wp_px = sp_px p\<rparr>)"

text \<open>
  \<open>operator weak_ptr<T>\<close>: the statement \<open>return static_cast<shared_ptr<T> >(*this)\<close>
  calls \<open>operator shared_ptr<T>\<close> for a temporary, constructs the returned weak
  handle from it, and destroys the temporary.
\<close>

definition operator_weak_ptr ::
  "build \<Rightarrow> klass \<Rightarrow> 'f store \<Rightarrow> SharedPtrHolder \<Rightarrow> failure + ('f store \<times> weak_ptr)" where
  "operator_weak_ptr b T s h =
     (case operator_shared_ptr b T s h of
        Inl e \<Rightarrow> Inl e
      | Inr (s1, tmp) \<Rightarrow>
          (case weak_from_shared s1 tmp of
             (s2, w) \<Rightarrow> Inr (sp_release s2 tmp, w)))"

text \<open>
  The downgrade of a shared handle, as the claim about \<open>operator weak_ptr<T>\<close>
  words it: a weak handle to the same instance takes the place of the shared
  handle, which is given up.
\<close>

definition downgrade :: "'f store \<Rightarrow> shared_ptr \<Rightarrow> 'f store \<times> weak_ptr" where
  "downgrade s p =
     (case sp_px p of
        None \<Rightarrow> (s, \<lparr>wp_static = sp_static p, wp_px = None\<rparr>)
      | Some a \<Rightarrow> (drop_ref (add_weak s a) a, \<lparr>wp_static = sp_static p, wp_px = Some a\<rparr>))"

text \<open>
  Modelled from the spec: \<open>Object::GetSelf\<close>, whose body is in object.cpp and
  not in the header. The spec says that an entity retrieves a shared handle to
  itself, typed as the base \<open>Object\<close>, wrapped in a holder.
\<close>

definition GetSelf :: "'f store \<Rightarrow> addr \<Rightarrow> 'f store \<times> SharedPtrHolder" where
  "GetSelf s this =
     (add_ref s this, \<lparr>m_Object = \<lparr>sp_static = ObjectClass, sp_px = Some this\<rparr>\<rparr>)"

subsection \<open>WeakPtrEqual\<close>

text \<open>
  \<open>weak_ptr::lock\<close>: a shared handle to the pointee while its use count is not
  zero, an empty handle otherwise. \<open>weak_ptr::expired\<close> is \<open>use_count() == 0\<close>.
\<close>

definition wp_lock :: "'f store \<Rightarrow> weak_ptr \<Rightarrow> 'f store \<times> shared_ptr" where
  "wp_lock s w =
     (case wp_px w of
        None \<Rightarrow> (s, null_shared (wp_static w))
      | Some a \<Rightarrow>
          if a < length s \<and> use_count (s ! a) \<noteq> 0
          then (add_ref s a, \<lparr>sp_static = wp_static w, sp_px = Some a\<rparr>)
          else (s, null_shared (wp_static w)))"

definition expired :: "'f store \<Rightarrow> weak_ptr \<Rightarrow> bool" where
  "expired s w =
     (case wp_px w of
        None \<Rightarrow> True
      | Some a \<Rightarrow> (if a < length s then use_count (s ! a) = 0 else True))"

text \<open>
  \<open>WeakPtrEqual<T>(m_Ref)(wref)\<close>. The raw pointer \<open>m_Ref\<close> is a \<open>const void *\<close>;
  the cast to \<open>const T *\<close> leaves the address as it is. The temporary that
  \<open>lock\<close> returns is destroyed at the end of the comparison.
\<close>

definition WeakPtrEqual :: "addr option \<Rightarrow> 'f store \<Rightarrow> weak_ptr \<Rightarrow> 'f store \<times> bool" where
  "WeakPtrEqual m_Ref s wref =
     (case wp_lock s wref of
        (s1, tmp) \<Rightarrow> (sp_release s1 tmp, sp_px tmp = m_Ref))"

subsection \<open>Factories\<close>

text \<open>
  \<open>make_shared<T>()\<close> allocates a new instance of \<open>T\<close> and runs the default
  constructor of \<open>T\<close>. The constructors are not in the header: \<open>ctor T\<close> is the
  state of the members that \<open>T()\<close> leaves. The new instance has one owner, the
  handle returned.
\<close>

definition make_shared :: "(klass \<Rightarrow> 'f) \<Rightarrow> klass \<Rightarrow> 'f store \<Rightarrow> 'f store \<times> shared_ptr" where
  "make_shared ctor T s =
     (s @ [\<lparr>dyn_class = T, use_count = 1, weak_count = 0, members = ctor T\<rparr>],
      \<lparr>sp_static = T, sp_px = Some (length s)\<rparr>)"

text \<open>
  \<open>DefaultObjectFactory<T>\<close>: the result of \<open>make_shared<T>()\<close>, converted to
  \<open>shared_ptr<Object>\<close> on return.
\<close>

definition DefaultObjectFactory :: "(klass \<Rightarrow> 'f) \<Rightarrow> klass \<Rightarrow> 'f store \<Rightarrow> 'f store \<times> shared_ptr" where
  "DefaultObjectFactory ctor T s =
     (case make_shared ctor T s of
        (s', p) \<Rightarrow> (s', \<lparr>sp_static = ObjectClass, sp_px = sp_px p\<rparr>))"

type_synonym 'f ObjectFactory = "'f store \<Rightarrow> 'f store \<times> shared_ptr"

text \<open>\<open>TypeHelper<T>::GetFactory\<close>.\<close>

definition GetFactory :: "(klass \<Rightarrow> 'f) \<Rightarrow> klass \<Rightarrow> 'f ObjectFactory" where
  "GetFactory ctor T = DefaultObjectFactory ctor T"

subsection \<open>Type lookup\<close>

text \<open>
  \<open>DECLARE_OBJECT(klass)\<close> expands to \<open>IMPL_TYPE_LOOKUP(klass)\<close>, which declares
  in the class a static member \<open>TypeInstance\<close> and a virtual member function
  \<open>GetReflectionType\<close> that returns it.
\<close>

primrec declares_object :: "klass \<Rightarrow> bool" where
  "declares_object ObjectClass = True"
| "declares_object (Derived n d B) = d"

text \<open>
  The final overrider of \<open>GetReflectionType\<close> for an object whose most derived
  class is \<open>D\<close>: the function of \<open>D\<close> when \<open>D\<close> declares one, the one that the
  base of \<open>D\<close> inherits or declares otherwise.
\<close>

primrec final_overrider :: "klass \<Rightarrow> klass" where
  "final_overrider ObjectClass = ObjectClass"
| "final_overrider (Derived n d B) = (if d then Derived n d B else final_overrider B)"

text \<open>
  The static storage holds one \<open>TypeInstance\<close> for each class that declares
  it: \<open>slots K\<close> is the member declared in \<open>K\<close>. A virtual call through a handle
  runs the final overrider for the pointee's most derived class, whose body
  returns the \<open>TypeInstance\<close> of the class it is declared in. A call through a
  null handle, or through one that points at no instance, has no result.
\<close>

definition GetReflectionType :: "(klass \<Rightarrow> 't) \<Rightarrow> 'f store \<Rightarrow> shared_ptr \<Rightarrow> 't option" where
  "GetReflectionType slots s p =
     (case sp_px p of
        None \<Rightarrow> None
      | Some a \<Rightarrow>
          if a < length s then Some (slots (final_overrider (dyn_class (s ! a)))) else None)"

text \<open>
  The name \<open>K::TypeInstance\<close> is looked up in the scope of \<open>K\<close> and then in the
  scopes of its bases, nearest first.
\<close>

primrec class_chain :: "klass \<Rightarrow> klass list" where
  "class_chain ObjectClass = [ObjectClass]"
| "class_chain (Derived n d B) = Derived n d B # class_chain B"

definition TypeInstance :: "(klass \<Rightarrow> 't) \<Rightarrow> klass \<Rightarrow> 't" where
  "TypeInstance slots K =
     (case find declares_object (class_chain K) of
        Some C \<Rightarrow> slots C
      | None \<Rightarrow> slots ObjectClass)"

subsection \<open>The lock query\<close>

type_synonym thread_id = nat

text \<open>
  The members \<open>m_Locked\<close> and \<open>m_LockOwner\<close> of \<open>Object\<close>, which only a debug
  build declares. A \<open>boost::thread::id\<close> is the id of a thread or the value
  that stands for no thread (\<open>None\<close>).
\<close>

record Object_debug =
  m_Locked :: bool
  m_LockOwner :: "thread_id option"

text \<open>
  Modelled from the spec: the body of \<open>Object::OwnsLock\<close>, which is in
  object.cpp and not in the header. The spec says that the query answers
  whether the calling thread currently holds the lock of the entity, from the
  record of whether the entity is locked and by which thread.
\<close>

definition OwnsLock_body :: "Object_debug \<Rightarrow> thread_id \<Rightarrow> bool" where
  "OwnsLock_body this caller = (m_Locked this \<and> m_LockOwner this = Some caller)"

text \<open>
  \<open>Object::OwnsLock\<close> is declared between \<open>#ifdef _DEBUG\<close> and \<open>#endif\<close>. In a
  release build the class has no such member: there is nothing to call and no
  value returned, which is the result \<open>None\<close>.
\<close>

definition OwnsLock :: "build \<Rightarrow> Object_debug \<Rightarrow> thread_id \<Rightarrow> bool option" where
  "OwnsLock b this caller =
     (case b of
        Debug \<Rightarrow> Some (OwnsLock_body this caller)
      | Release \<Rightarrow> None)"

subsection \<open>Field access\<close>

text \<open>
  Modelled from the spec: the class \<open>Value\<close>, which the header only declares.
  The spec describes a dynamically typed box that is empty or holds a
  primitive value or an entity handle.
\<close>

datatype Value = Empty | ValueNumber int | ValueString string | ValueObject shared_ptr

text \<open>
  Modelled from the spec: \<open>Object::GetField\<close> and \<open>Object::SetField\<close> of the
  base class, whose bodies are in object.cpp and not in the header. The spec
  says that the base class signals that there is no such field by an empty
  value, and that setting a field is a no-op there. The field id is a C++
  \<open>int\<close>, a 32-bit word read as a signed number.
\<close>

definition GetField :: "'f heap_object \<Rightarrow> 32 word \<Rightarrow> failure + Value" where
  "GetField this fid = Inr Empty"

definition SetField :: "'f heap_object \<Rightarrow> 32 word \<Rightarrow> Value \<Rightarrow> failure + 'f heap_object" where
  "SetField this fid v = Inr this"

section \<open>Properties\<close>

subsection \<open>Example classes and stores\<close>

definition DynamicObject :: klass where
  "DynamicObject = Derived ''DynamicObject'' True ObjectClass"

definition Host :: klass where
  "Host = Derived ''Host'' True DynamicObject"

definition Service :: klass where
  "Service = Derived ''Service'' True DynamicObject"

definition one_host :: "unit store" where
  "one_host = [\<lparr>dyn_class = Host, use_count = 1, weak_count = 0, members = ()\<rparr>]"

definition holder0 :: SharedPtrHolder where
  "holder0 = \<lparr>m_Object = \<lparr>sp_static = ObjectClass, sp_px = Some 0\<rparr>\<rparr>"

text \<open>A class that inherits \<open>GetReflectionType\<close> without declaring its own.\<close>

definition ObjectImpl_Host :: klass where
  "ObjectImpl_Host = Derived ''ObjectImpl<Host>'' False DynamicObject"

definition one_impl :: "unit store" where
  "one_impl = [\<lparr>dyn_class = ObjectImpl_Host, use_count = 1, weak_count = 0, members = ()\<rparr>]"

text \<open>A store whose only instance has been destroyed while a weak handle remains.\<close>

definition one_dead :: "unit store" where
  "one_dead = [\<lparr>dyn_class = Host, use_count = 0, weak_count = 1, members = ()\<rparr>]"

definition weak0 :: weak_ptr where
  "weak0 = \<lparr>wp_static = Host, wp_px = Some 0\<rparr>"

text \<open>Static storage in which every descriptor is the name of its class.\<close>

fun name_slots :: "klass \<Rightarrow> string" where
  "name_slots ObjectClass = ''Object''"
| "name_slots (Derived n d B) = n"

definition locked_by_1 :: Object_debug where
  "locked_by_1 = \<lparr>m_Locked = True, m_LockOwner = Some 1\<rparr>"

subsection \<open>Reference counts and class chains\<close>

lemma length_add_ref [simp]: "length (add_ref s a) = length s"
  by (simp add: add_ref_def)

lemma length_drop_ref [simp]: "length (drop_ref s a) = length s"
  by (simp add: drop_ref_def)

lemma length_add_weak [simp]: "length (add_weak s a) = length s"
  by (simp add: add_weak_def)

lemma drop_add_ref: "drop_ref (add_ref s a) a = s"
  by (simp add: drop_ref_def add_ref_def list_update_same_conv)

lemma drop_add_weak_add_ref: "drop_ref (add_weak (add_ref s a) a) a = add_weak s a"
  by (simp add: drop_ref_def add_ref_def add_weak_def list_update_same_conv)

lemma use_count_add_weak: "map use_count (add_weak s a) = map use_count s"
  by (simp add: add_weak_def map_update list_update_same_conv)

lemma dyn_class_add_weak: "map dyn_class (add_weak s a) = map dyn_class s"
  by (simp add: add_weak_def map_update list_update_same_conv)

lemma operator_shared_ptr_result:
  assumes "operator_shared_ptr b T s h = Inr (s1, p)"
  shows "sp_static p = T \<and> sp_px p = sp_px (m_Object h)
       \<and> s1 = (case sp_px p of None \<Rightarrow> s | Some a \<Rightarrow> add_ref s a)"
  using assms
  by (cases b)
    (auto simp: operator_shared_ptr_def dynamic_pointer_cast_def static_pointer_cast_def
      ASSERT_def null_shared_def split: option.splits if_splits)

lemma sp_release_wp_lock: "sp_release (fst (wp_lock s w)) (snd (wp_lock s w)) = s"
  by (simp add: wp_lock_def sp_release_def null_shared_def drop_add_ref split: option.splits)

lemma expired_lock_null: "expired s w \<Longrightarrow> sp_px (snd (wp_lock s w)) = None"
  by (auto simp: expired_def wp_lock_def null_shared_def split: option.splits if_splits)

lemma find_declares_chain:
  "find declares_object (class_chain K) = Some (final_overrider K)"
  by (induction K) simp_all

subsection \<open>Conversion of a holder to a shared handle\<close>

text \<open>
  C1. Let a holder wrap the entity at address \<open>a\<close>, whose most derived class is
  \<open>D\<close>. In a debug build the conversion to \<open>shared_ptr<T>\<close> is a checked cast:
  it aborts with a failed assertion whenever \<open>T\<close> is neither \<open>D\<close> nor an
  ancestor of \<open>D\<close>, and otherwise yields a handle of type \<open>T\<close> to the entity.
  In a release build the conversion yields a handle of type \<open>T\<close> to the entity
  for every \<open>T\<close>, whatever \<open>D\<close> is: no run-time check is made.
\<close>

theorem holder_conversion_policy:
  assumes "sp_px (m_Object h) = Some a" and "a < length s" and "dyn_class (s ! a) = D"
  shows "(\<not> is_base_of T D \<longrightarrow> operator_shared_ptr Debug T s h = Inl AssertionFailed)
       \<and> (is_base_of T D \<longrightarrow>
            operator_shared_ptr Debug T s h = Inr (add_ref s a, \<lparr>sp_static = T, sp_px = Some a\<rparr>))
       \<and> operator_shared_ptr Release T s h = Inr (add_ref s a, \<lparr>sp_static = T, sp_px = Some a\<rparr>)"
  using assms
  by (simp add: operator_shared_ptr_def dynamic_pointer_cast_def static_pointer_cast_def
      ASSERT_def null_shared_def)

theorem holder_conversion_policy_witness:
  "operator_shared_ptr Debug Service one_host holder0 = Inl AssertionFailed
   \<and> operator_shared_ptr Debug DynamicObject one_host holder0
       = Inr (add_ref one_host 0, \<lparr>sp_static = DynamicObject, sp_px = Some 0\<rparr>)
   \<and> operator_shared_ptr Release Service one_host holder0
       = Inr (add_ref one_host 0, \<lparr>sp_static = Service, sp_px = Some 0\<rparr>)"
proof -
  have h1: "sp_px (m_Object holder0) = Some 0" by (simp add: holder0_def)
  have h2: "0 < length one_host" by (simp add: one_host_def)
  have h3: "dyn_class (one_host ! 0) = Host" by (simp add: one_host_def)
  have n: "\<not> is_base_of Service Host" by (simp add: Service_def Host_def DynamicObject_def)
  have y: "is_base_of DynamicObject Host" by (simp add: Host_def DynamicObject_def)
  show ?thesis
    using holder_conversion_policy [OF h1 h2 h3, of Service]
      holder_conversion_policy [OF h1 h2 h3, of DynamicObject] n y
    by simp
qed

text \<open>
  C2. For an entity instance at address \<open>this\<close>, the holder that \<open>GetSelf\<close>
  returns converts to the entity's own most derived class, and to every
  ancestor of it, in a debug build and in a release build alike: the result
  is a non-null shared handle of the requested type to the same instance,
  whose class and members are as before.
\<close>

theorem self_conversion_succeeds:
  assumes "this < length s" and "is_base_of T (dyn_class (s ! this))"
    and "GetSelf s this = (s1, h)"
  shows "operator_shared_ptr b T s1 h
           = Inr (add_ref s1 this, \<lparr>sp_static = T, sp_px = Some this\<rparr>)
         \<and> dyn_class (add_ref s1 this ! this) = dyn_class (s ! this)
         \<and> members (add_ref s1 this ! this) = members (s ! this)"
proof -
  from assms(3) have s1: "s1 = add_ref s this"
    and h: "m_Object h = \<lparr>sp_static = ObjectClass, sp_px = Some this\<rparr>"
    by (auto simp: GetSelf_def)
  have cls: "dyn_class (s1 ! this) = dyn_class (s ! this)"
    using assms(1) by (simp add: s1 add_ref_def)
  have conv: "operator_shared_ptr b T s1 h
           = Inr (add_ref s1 this, \<lparr>sp_static = T, sp_px = Some this\<rparr>)"
    using assms(1,2) cls h
    by (cases b)
      (simp_all add: operator_shared_ptr_def dynamic_pointer_cast_def static_pointer_cast_def
        ASSERT_def s1)
  have "dyn_class (add_ref s1 this ! this) = dyn_class (s ! this)"
    "members (add_ref s1 this ! this) = members (s ! this)"
    using assms(1) by (simp_all add: s1 add_ref_def)
  with conv show ?thesis by simp
qed

theorem self_conversion_succeeds_witness:
  "operator_shared_ptr Debug DynamicObject (add_ref one_host 0) holder0
     = Inr (add_ref (add_ref one_host 0) 0, \<lparr>sp_static = DynamicObject, sp_px = Some 0\<rparr>)
   \<and> operator_shared_ptr Release Host (add_ref one_host 0) holder0
     = Inr (add_ref (add_ref one_host 0) 0, \<lparr>sp_static = Host, sp_px = Some 0\<rparr>)
   \<and> dyn_class (add_ref (add_ref one_host 0) 0 ! 0) = Host"
proof -
  have h1: "0 < length one_host" by (simp add: one_host_def)
  have c: "dyn_class (one_host ! 0) = Host" by (simp add: one_host_def)
  have h2: "is_base_of DynamicObject (dyn_class (one_host ! 0))"
    by (simp add: c Host_def DynamicObject_def)
  have h2': "is_base_of Host (dyn_class (one_host ! 0))"
    by (simp add: c Host_def)
  have h3: "GetSelf one_host 0 = (add_ref one_host 0, holder0)"
    by (simp add: GetSelf_def holder0_def)
  show ?thesis
    using self_conversion_succeeds [OF h1 h2 h3, of Debug]
      self_conversion_succeeds [OF h1 h2' h3, of Release] c
    by simp
qed

subsection \<open>The lock query\<close>

text \<open>
  C3, as amended. \<open>Object::OwnsLock\<close> exists in the debug build only: the query
  yields an answer exactly when the build is a debug build, and in a release
  build there is no member to call and no value, false or other, is returned.
\<close>

theorem OwnsLock_only_in_debug:
  "(\<exists>r. OwnsLock b this caller = Some r) = (b = Debug)
   \<and> (OwnsLock b this caller = None) = (b = Release)"
  by (cases b) (simp_all add: OwnsLock_def)

text \<open>
  The claim as stated fails: in a release build the query does not return
  false to a caller, since it returns nothing.
\<close>

theorem OwnsLock_release_counterexample:
  "OwnsLock Release locked_by_1 1 \<noteq> Some False"
  by (simp add: OwnsLock_def)

subsection \<open>Factories\<close>

text \<open>
  C6. \<open>TypeHelper<T>::GetFactory\<close> is \<open>DefaultObjectFactory<T>\<close>. Each call of
  the factory appends one instance to the store, at an address that did not
  exist before: its most derived class is exactly \<open>T\<close>, its members are those
  that the default constructor leaves, its only owner is the returned handle,
  and the handle is typed \<open>Object\<close>. A second call returns a non-null handle to
  another instance and leaves the first instance as it is.
\<close>

theorem default_factory_creates_new_instance:
  "GetFactory ctor T = DefaultObjectFactory ctor T
   \<and> (\<forall>s s1 h1. GetFactory ctor T s = (s1, h1) \<longrightarrow>
         sp_px h1 = Some (length s)
         \<and> sp_static h1 = ObjectClass
         \<and> s1 = s @ [\<lparr>dyn_class = T, use_count = 1, weak_count = 0, members = ctor T\<rparr>]
         \<and> (\<forall>s2 h2. GetFactory ctor T s1 = (s2, h2) \<longrightarrow>
               sp_px h2 \<noteq> sp_px h1 \<and> sp_px h2 \<noteq> None
               \<and> s2 ! length s = s1 ! length s))"
  by (auto simp: GetFactory_def DefaultObjectFactory_def make_shared_def nth_append)

theorem default_factory_creates_new_instance_witness:
  "GetFactory (\<lambda>K. ()) Host []
     = ([\<lparr>dyn_class = Host, use_count = 1, weak_count = 0, members = ()\<rparr>],
        \<lparr>sp_static = ObjectClass, sp_px = Some 0\<rparr>)
   \<and> sp_px (snd (GetFactory (\<lambda>K. ()) Host one_host)) \<noteq> Some 0"
proof -
  have a: "GetFactory (\<lambda>K. ()) Host ([] :: unit store) = (one_host, \<lparr>sp_static = ObjectClass, sp_px = Some 0\<rparr>)"
    by (simp add: GetFactory_def DefaultObjectFactory_def make_shared_def one_host_def)
  obtain s2 h2 where b: "GetFactory (\<lambda>K. ()) Host one_host = (s2, h2)"
    by (cases "GetFactory (\<lambda>K. ()) Host one_host") auto
  from default_factory_creates_new_instance [of "\<lambda>K. ()" Host] a b
  have "sp_px h2 \<noteq> Some 0" by fastforce
  with a b show ?thesis by (simp add: one_host_def)
qed

subsection \<open>Type lookup\<close>

text \<open>
  C7. For an entity at address \<open>a\<close>, \<open>GetReflectionType\<close> called through a
  handle returns the descriptor that the name \<open>TypeInstance\<close> denotes in the
  entity's most derived class, and the static type of the handle plays no
  part: every handle to the same address gives the same result. When the most
  derived class contains \<open>DECLARE_OBJECT\<close>, that descriptor is the class's own
  slot; a class that contains \<open>DECLARE_OBJECT\<close> has its own slot \<open>slots K\<close>,
  which is what \<open>K::TypeInstance\<close> denotes.
\<close>

theorem reflection_type_of_actual_class:
  assumes "sp_px p = Some a" and "a < length s"
  shows "GetReflectionType slots s p = Some (TypeInstance slots (dyn_class (s ! a)))
       \<and> (\<forall>q::shared_ptr. sp_px q = sp_px p \<longrightarrow>
            GetReflectionType slots s q = GetReflectionType slots s p)
       \<and> (declares_object (dyn_class (s ! a)) \<longrightarrow>
            GetReflectionType slots s p = Some (slots (dyn_class (s ! a))))
       \<and> (\<forall>K. declares_object K \<longrightarrow> TypeInstance slots K = slots K)"
proof (intro conjI allI impI)
  show "GetReflectionType slots s p = Some (TypeInstance slots (dyn_class (s ! a)))"
    using assms by (simp add: GetReflectionType_def TypeInstance_def find_declares_chain)
next
  fix q :: shared_ptr assume "sp_px q = sp_px p"
  then show "GetReflectionType slots s q = GetReflectionType slots s p"
    by (simp add: GetReflectionType_def)
next
  assume "declares_object (dyn_class (s ! a))"
  then have "final_overrider (dyn_class (s ! a)) = dyn_class (s ! a)"
    by (cases "dyn_class (s ! a)") simp_all
  then show "GetReflectionType slots s p = Some (slots (dyn_class (s ! a)))"
    using assms by (simp add: GetReflectionType_def)
next
  fix K assume "declares_object K"
  then have "final_overrider K = K" by (cases K) simp_all
  then show "TypeInstance slots K = slots K"
    by (simp add: TypeInstance_def find_declares_chain)
qed

theorem reflection_type_of_actual_class_witness:
  "GetReflectionType name_slots one_impl (m_Object holder0) = Some ''DynamicObject''
   \<and> TypeInstance name_slots ObjectImpl_Host = ''DynamicObject''
   \<and> GetReflectionType name_slots one_impl \<lparr>sp_static = ObjectImpl_Host, sp_px = Some 0\<rparr>
       = GetReflectionType name_slots one_impl (m_Object holder0)
   \<and> GetReflectionType name_slots one_host (m_Object holder0) = Some ''Host''
   \<and> TypeInstance name_slots Host = ''Host''"
proof -
  have h1: "sp_px (m_Object holder0) = Some 0" by (simp add: holder0_def)
  have h2: "0 < length one_impl" by (simp add: one_impl_def)
  have h3: "0 < length one_host" by (simp add: one_host_def)
  have c: "dyn_class (one_impl ! 0) = ObjectImpl_Host" by (simp add: one_impl_def)
  have d: "dyn_class (one_host ! 0) = Host" by (simp add: one_host_def)
  have e: "declares_object Host" by (simp add: Host_def)
  have t: "TypeInstance name_slots ObjectImpl_Host = ''DynamicObject''"
    by (simp add: TypeInstance_def ObjectImpl_Host_def DynamicObject_def)
  have n: "name_slots Host = ''Host''" by (simp add: Host_def)
  note A = reflection_type_of_actual_class [OF h1 h2, of name_slots]
  note B = reflection_type_of_actual_class [OF h1 h3, of name_slots]
  from A have A1: "GetReflectionType name_slots one_impl (m_Object holder0)
      = Some (TypeInstance name_slots ObjectImpl_Host)"
    by (simp add: c)
  from A have A2: "GetReflectionType name_slots one_impl \<lparr>sp_static = ObjectImpl_Host, sp_px = Some 0\<rparr>
       = GetReflectionType name_slots one_impl (m_Object holder0)"
    using h1 by simp
  from B e have B1: "GetReflectionType name_slots one_host (m_Object holder0) = Some (name_slots Host)"
    by (simp add: d)
  from B e have B2: "TypeInstance name_slots Host = name_slots Host"
    by blast
  from A1 A2 B1 B2 t n show ?thesis by simp
qed

subsection \<open>Conversion of a holder to a weak handle\<close>

text \<open>
  C8. The conversion of a holder to \<open>weak_ptr<T>\<close> fails exactly when the
  conversion to \<open>shared_ptr<T>\<close> fails, and when that one yields a shared
  handle, the weak conversion yields the downgrade of that handle: a weak
  handle of type \<open>T\<close> to the instance the holder wraps, with every use count
  of the store as it was before the conversion, so that the weak handle keeps
  no instance alive. In a debug build the conversion aborts with a failed
  assertion when \<open>T\<close> is neither the entity's class nor an ancestor of it.
\<close>

theorem weak_conversion:
  "(operator_weak_ptr b T s h = Inl e) = (operator_shared_ptr b T s h = Inl e)
   \<and> (\<forall>s1 p. operator_shared_ptr b T s h = Inr (s1, p) \<longrightarrow>
         (\<exists>s2 w. operator_weak_ptr b T s h = Inr (s2, w)
            \<and> (s2, w) = downgrade s1 p
            \<and> wp_static w = T
            \<and> wp_px w = sp_px (m_Object h)
            \<and> map use_count s2 = map use_count s
            \<and> map dyn_class s2 = map dyn_class s))
   \<and> (\<forall>a. sp_px (m_Object h) = Some a \<and> a < length s \<and> \<not> is_base_of T (dyn_class (s ! a)) \<longrightarrow>
         operator_weak_ptr Debug T s h = Inl AssertionFailed)"
proof (intro conjI allI impI)
  show "(operator_weak_ptr b T s h = Inl e) = (operator_shared_ptr b T s h = Inl e)"
    by (auto simp: operator_weak_ptr_def weak_from_shared_def split: sum.splits prod.splits)
next
  fix s1 p
  assume ok: "operator_shared_ptr b T s h = Inr (s1, p)"
  note r = operator_shared_ptr_result [OF ok]
  show "\<exists>s2 w. operator_weak_ptr b T s h = Inr (s2, w)
            \<and> (s2, w) = downgrade s1 p
            \<and> wp_static w = T
            \<and> wp_px w = sp_px (m_Object h)
            \<and> map use_count s2 = map use_count s
            \<and> map dyn_class s2 = map dyn_class s"
  proof (cases "sp_px p")
    case None
    with ok r show ?thesis
      by (simp add: operator_weak_ptr_def weak_from_shared_def sp_release_def downgrade_def)
  next
    case (Some a)
    from r Some have s1: "s1 = add_ref s a" and hp: "sp_px (m_Object h) = Some a"
      and st: "sp_static p = T"
      by simp_all
    have w: "operator_weak_ptr b T s h
               = Inr (drop_ref (add_weak s1 a) a, \<lparr>wp_static = T, wp_px = Some a\<rparr>)"
      using ok Some st
      by (simp add: operator_weak_ptr_def weak_from_shared_def sp_release_def)
    have d: "downgrade s1 p = (drop_ref (add_weak s1 a) a, \<lparr>wp_static = T, wp_px = Some a\<rparr>)"
      using Some st by (simp add: downgrade_def)
    have e: "drop_ref (add_weak s1 a) a = add_weak s a"
      by (simp add: s1 drop_add_weak_add_ref)
    show ?thesis
      using w d hp by (simp add: e use_count_add_weak dyn_class_add_weak)
  qed
next
  fix a
  assume "sp_px (m_Object h) = Some a \<and> a < length s \<and> \<not> is_base_of T (dyn_class (s ! a))"
  then show "operator_weak_ptr Debug T s h = Inl AssertionFailed"
    by (simp add: operator_weak_ptr_def operator_shared_ptr_def dynamic_pointer_cast_def
        ASSERT_def null_shared_def)
qed

theorem weak_conversion_witness:
  "operator_weak_ptr Release Service one_host holder0
     = Inr (add_weak one_host 0, \<lparr>wp_static = Service, wp_px = Some 0\<rparr>)
   \<and> operator_weak_ptr Debug Service one_host holder0 = Inl AssertionFailed
   \<and> map use_count (add_weak one_host 0) = map use_count one_host"
proof -
  have sh: "operator_shared_ptr Release Service one_host holder0
      = Inr (add_ref one_host 0, \<lparr>sp_static = Service, sp_px = Some 0\<rparr>)"
    by (simp add: operator_shared_ptr_def static_pointer_cast_def holder0_def)
  have dg: "downgrade (add_ref one_host 0) \<lparr>sp_static = Service, sp_px = Some 0\<rparr>
      = (add_weak one_host 0, \<lparr>wp_static = Service, wp_px = Some 0\<rparr>)"
    by (simp add: downgrade_def drop_add_weak_add_ref)
  have mis: "sp_px (m_Object holder0) = Some 0 \<and> 0 < length one_host
      \<and> \<not> is_base_of Service (dyn_class (one_host ! 0))"
    by (simp add: holder0_def one_host_def Service_def Host_def DynamicObject_def)
  note W = weak_conversion [of Release Service one_host holder0 AssertionFailed]
  note V = weak_conversion [of Debug Service one_host holder0 AssertionFailed]
  from W sh obtain s2 w where
    "operator_weak_ptr Release Service one_host holder0 = Inr (s2, w)"
    "(s2, w) = downgrade (add_ref one_host 0) \<lparr>sp_static = Service, sp_px = Some 0\<rparr>"
    "map use_count s2 = map use_count one_host"
    by blast
  with dg have r: "operator_weak_ptr Release Service one_host holder0
     = Inr (add_weak one_host 0, \<lparr>wp_static = Service, wp_px = Some 0\<rparr>)"
    "map use_count (add_weak one_host 0) = map use_count one_host"
    by simp_all
  from V mis have "operator_weak_ptr Debug Service one_host holder0 = Inl AssertionFailed"
    by blast
  with r show ?thesis by simp
qed

subsection \<open>Field access of the base class\<close>

text \<open>
  C9. For every field id, and for the id 999999, \<open>GetField\<close> of the base class
  returns the empty value without failing, and \<open>SetField\<close> of the base class
  returns without failing and leaves the entity as it was.
\<close>

theorem base_field_access:
  "GetField this fid = Inr Empty
   \<and> GetField this 999999 = Inr Empty
   \<and> SetField this fid v = Inr this"
  by (simp add: GetField_def SetField_def)

subsection \<open>WeakPtrEqual\<close>

text \<open>
  C10. \<open>WeakPtrEqual<T>(r)(w)\<close> is true exactly when the raw pointer of the
  handle that \<open>w.lock()\<close> yields equals \<open>r\<close>; the comparison leaves the store
  as it was; and for an expired \<open>w\<close> it is true exactly when \<open>r\<close> is the null
  pointer.
\<close>

theorem WeakPtrEqual_compares_locked_pointer:
  "snd (WeakPtrEqual r s w) = (sp_px (snd (wp_lock s w)) = r)
   \<and> fst (WeakPtrEqual r s w) = s
   \<and> (expired s w \<longrightarrow> snd (WeakPtrEqual r s w) = (r = None))"
proof -
  have a: "snd (WeakPtrEqual r s w) = (sp_px (snd (wp_lock s w)) = r)"
    by (simp add: WeakPtrEqual_def split: prod.splits)
  have b: "fst (WeakPtrEqual r s w) = s"
    using sp_release_wp_lock [of s w] by (cases "wp_lock s w") (simp add: WeakPtrEqual_def)
  have c: "expired s w \<longrightarrow> snd (WeakPtrEqual r s w) = (r = None)"
    using a expired_lock_null [of s w] by auto
  from a b c show ?thesis by blast
qed

theorem WeakPtrEqual_compares_locked_pointer_witness:
  "expired one_dead weak0
   \<and> snd (WeakPtrEqual None one_dead weak0)
   \<and> \<not> snd (WeakPtrEqual (Some 0) one_dead weak0)
   \<and> fst (WeakPtrEqual (Some 0) one_dead weak0) = one_dead"
proof -
  have e: "expired one_dead weak0" by (simp add: expired_def one_dead_def weak0_def)
  from e WeakPtrEqual_compares_locked_pointer [of None one_dead weak0]
  have a: "snd (WeakPtrEqual None one_dead weak0)" by blast
  from e WeakPtrEqual_compares_locked_pointer [of "Some 0" one_dead weak0]
  have b: "\<not> snd (WeakPtrEqual (Some 0) one_dead weak0)"
    and c: "fst (WeakPtrEqual (Some 0) one_dead weak0) = one_dead"
    by blast+
  from e a b c show ?thesis by blast
qed

end
